theory Spec2Isabelle
  imports Main
begin

section \<open>Access-control middleware of ContentFlow AI (src/middlewares/auth.js)\<close>

text \<open>
  The three request-pipeline stages \<open>authenticateToken\<close>, \<open>requireRole\<close> and
  \<open>requireWorkspaceAccess\<close> are embedded as functions from the request (and the
  external collaborators: the JWT library and the persistence client) to what the stage
  does: it either calls \<open>next()\<close> or writes a JSON error response with a status code.
\<close>

subsection \<open>Rows of the persistence layer\<close>

text \<open>
  Columns read by the middleware. \<open>users.id\<close>, \<open>users.role\<close>, \<open>users.status\<close>,
  \<open>workspaces.owner_id\<close>, \<open>workspace_members.user_id\<close>, \<open>workspace_members.status\<close> and
  \<open>clients.creator_id\<close> are \<open>NOT NULL\<close> in the schema; \<open>clients.user_id\<close> and
  \<open>clients.workspace_id\<close> are nullable, so the linked user and the nested workspace of a
  client are optional (\<open>None\<close> is JavaScript's \<open>null\<close>).
\<close>

record user =
  users_id :: string
  users_role :: string
  users_status :: string

record workspace_member =
  member_user_id :: string
  member_status :: string

text \<open>A workspace row as selected by \<open>workspaces(*)\<close>.\<close>

record workspace_row =
  owner_id :: string

text \<open>A workspace row as selected by \<open>*, workspace_members(*)\<close>.\<close>

record workspace = workspace_row +
  workspace_members :: "workspace_member list"

text \<open>A client row as selected by \<open>*, workspace:workspaces(*)\<close>.\<close>

record client =
  client_user_id :: "string option"
  creator_id :: string
  client_workspace :: "workspace_row option"

subsection \<open>Collaborators\<close>

text \<open>
  \<open>jwt.verify(token, secret)\<close> either returns the decoded payload, of which only
  \<open>userId\<close> is read (absent: \<open>None\<close>), or throws an error with a \<open>name\<close>.
\<close>

datatype jwt_result = Decoded "string option" | JwtThrows string

text \<open>
  An awaited query \<open>supabaseAdmin.from(t).select(s).eq('id', v).single()\<close> either
  resolves to an object with the fields \<open>data\<close> and \<open>error\<close> (each possibly null), or
  rejects with a thrown error that has a \<open>name\<close>.
\<close>

datatype 'a query_result = Resolved "'a option" "string option" | Rejected string

record env =
  jwt_verify :: "string \<Rightarrow> jwt_result"
  from_users :: "string option \<Rightarrow> user query_result"
  from_workspaces :: "string \<Rightarrow> workspace query_result"
  from_clients :: "string \<Rightarrow> client query_result"

text \<open>The queries that \<open>requireWorkspaceAccess\<close> has issued, in order.\<close>

datatype query = QueryWorkspaces string | QueryClients string

subsection \<open>Requests and what a stage does with them\<close>

record request =
  headers_authorization :: "string option"
  params_workspaceId :: "string option"
  params_clientId :: "string option"
  req_user :: "user option"

text \<open>
  A stage ends in \<open>next()\<close> or in \<open>res.status(code).json({error, message})\<close>.
\<close>

datatype outcome = Next | Json nat string string

fun status_of :: "outcome \<Rightarrow> nat option" where
  "status_of Next = None"
| "status_of (Json code err msg) = Some code"

subsection \<open>JavaScript helpers\<close>

text \<open>\<open>s.split(c)\<close> for a one-character separator: never the empty list.\<close>

fun split :: "char \<Rightarrow> string \<Rightarrow> string list" where
  "split c [] = [[]]"
| "split c (x # xs) =
     (if x = c then [] # split c xs
      else (case split c xs of
              [] \<Rightarrow> [[x]]
            | w # ws \<Rightarrow> (x # w) # ws))"

text \<open>\<open>xs[i]\<close>: \<open>undefined\<close> (here \<open>None\<close>) out of range.\<close>

fun index :: "'a list \<Rightarrow> nat \<Rightarrow> 'a option" where
  "index [] i = None"
| "index (x # xs) 0 = Some x"
| "index (x # xs) (Suc i) = index xs i"

text \<open>\<open>xs.join(sep)\<close>.\<close>

fun join :: "string \<Rightarrow> string list \<Rightarrow> string" where
  "join sep [] = []"
| "join sep [x] = x"
| "join sep (x # y # ys) = x @ sep @ join sep (y # ys)"

subsection \<open>authenticateToken\<close>

text \<open>
  \<open>const token = authHeader && authHeader.split(' ')[1]\<close>: an absent header gives
  \<open>undefined\<close>, an empty header gives the empty string itself.
\<close>

definition extractToken :: "request \<Rightarrow> string option" where
  "extractToken req =
     (case headers_authorization req of
        None \<Rightarrow> None
      | Some authHeader \<Rightarrow>
          if authHeader = [] then Some [] else index (split (CHR '' '') authHeader) 1)"

text \<open>The \<open>catch\<close> block of \<open>authenticateToken\<close>, by the name of the caught error.\<close>

definition authenticateCatch :: "string \<Rightarrow> outcome" where
  "authenticateCatch name =
     (if name = ''JsonWebTokenError'' then
        Json 401 ''Invalid token'' ''The provided token is malformed''
      else if name = ''TokenExpiredError'' then
        Json 401 ''Token expired'' ''Please log in again''
      else
        Json 500 ''Authentication failed'' ''Internal server error during authentication'')"

text \<open>
  The stage returns what it did and the request as it leaves it (\<open>req.user\<close> is
  assigned on success only).
\<close>

definition authenticateToken :: "env \<Rightarrow> request \<Rightarrow> outcome \<times> request" where
  "authenticateToken e req =
     (case extractToken req of
        None \<Rightarrow>
          (Json 401 ''Access token required'' ''Please provide a valid authentication token'', req)
      | Some token \<Rightarrow>
          if token = [] then
            (Json 401 ''Access token required'' ''Please provide a valid authentication token'', req)
          else
            (case jwt_verify e token of
               JwtThrows name \<Rightarrow> (authenticateCatch name, req)
             | Decoded userId \<Rightarrow>
                 (case from_users e userId of
                    Rejected name \<Rightarrow> (authenticateCatch name, req)
                  | Resolved data error \<Rightarrow>
                      (case (error, data) of
                         (Some err, _) \<Rightarrow>
                           (Json 401 ''Invalid token'' ''User not found or token expired'', req)
                       | (None, None) \<Rightarrow>
                           (Json 401 ''Invalid token'' ''User not found or token expired'', req)
                       | (None, Some u) \<Rightarrow>
                           if users_status u \<noteq> ''active'' then
                             (Json 403 ''Account inactive'' ''Your account has been deactivated'', req)
                           else
                             (Next, req\<lparr>req_user := Some u\<rparr>)))))"

subsection \<open>requireRole\<close>

text \<open>The argument of \<open>requireRole\<close> is one role or an array of roles.\<close>

datatype roles = Role string | Roles "string list"

text \<open>\<open>Array.isArray(roles) ? roles : [roles]\<close>\<close>

fun allowedRoles :: "roles \<Rightarrow> string list" where
  "allowedRoles (Roles rs) = rs"
| "allowedRoles (Role r) = [r]"

definition requireRole :: "roles \<Rightarrow> request \<Rightarrow> outcome" where
  "requireRole rs req =
     (case req_user req of
        None \<Rightarrow>
          Json 401 ''Authentication required'' ''Please log in to access this resource''
      | Some u \<Rightarrow>
          if users_role u \<notin> set (allowedRoles rs) then
            Json 403 ''Insufficient permissions''
              (''This action requires one of the following roles: '' @ join '', '' (allowedRoles rs))
          else Next)"

subsection \<open>requireWorkspaceAccess\<close>

text \<open>The \<open>catch\<close> block of \<open>requireWorkspaceAccess\<close>.\<close>

definition accessCatch :: outcome where
  "accessCatch =
     Json 500 ''Access check failed'' ''Internal server error during access verification''"

text \<open>
  \<open>workspace.workspace_members.some(member => member.user_id === userId &&
  member.status === 'active')\<close>
\<close>

definition isMember :: "workspace \<Rightarrow> string \<Rightarrow> bool" where
  "isMember w userId =
     list_ex (\<lambda>member. member_user_id member = userId \<and> member_status member = ''active'')
       (workspace_members w)"

definition isOwner :: "workspace \<Rightarrow> string \<Rightarrow> bool" where
  "isOwner w userId = (owner_id w = userId)"

text \<open>
  The block \<open>if (workspaceId) { ... }\<close>: \<open>Some\<close> response when the block returns one,
  \<open>None\<close> when control falls through to the client block; with the queries issued.
\<close>

definition checkWorkspace ::
  "env \<Rightarrow> string \<Rightarrow> string option \<Rightarrow> outcome option \<times> query list" where
  "checkWorkspace e userId workspaceId =
     (case workspaceId of
        None \<Rightarrow> (None, [])
      | Some wid \<Rightarrow>
          if wid = [] then (None, [])
          else
            (case from_workspaces e wid of
               Rejected name \<Rightarrow> (Some accessCatch, [QueryWorkspaces wid])
             | Resolved data error \<Rightarrow>
                 (case (error, data) of
                    (Some err, _) \<Rightarrow>
                      (Some (Json 404 ''Workspace not found''
                               ''The requested workspace does not exist''),
                       [QueryWorkspaces wid])
                  | (None, None) \<Rightarrow>
                      (Some (Json 404 ''Workspace not found''
                               ''The requested workspace does not exist''),
                       [QueryWorkspaces wid])
                  | (None, Some w) \<Rightarrow>
                      if \<not> isOwner w userId \<and> \<not> isMember w userId then
                        (Some (Json 403 ''Access denied''
                                 ''You do not have access to this workspace''),
                         [QueryWorkspaces wid])
                      else (None, [QueryWorkspaces wid]))))"

text \<open>
  \<open>client.workspace?.owner_id\<close>: \<open>undefined\<close> (here \<open>None\<close>) when the nested workspace
  is null.
\<close>

definition workspaceOwnerId :: "client \<Rightarrow> string option" where
  "workspaceOwnerId c = map_option owner_id (client_workspace c)"

text \<open>The block \<open>if (clientId) { ... }\<close>, in the same form.\<close>

definition checkClient ::
  "env \<Rightarrow> string \<Rightarrow> string \<Rightarrow> string option \<Rightarrow> outcome option \<times> query list" where
  "checkClient e userId userRole clientId =
     (case clientId of
        None \<Rightarrow> (None, [])
      | Some cid \<Rightarrow>
          if cid = [] then (None, [])
          else
            (case from_clients e cid of
               Rejected name \<Rightarrow> (Some accessCatch, [QueryClients cid])
             | Resolved data error \<Rightarrow>
                 (case (error, data) of
                    (Some err, _) \<Rightarrow>
                      (Some (Json 404 ''Client not found''
                               ''The requested client does not exist''),
                       [QueryClients cid])
                  | (None, None) \<Rightarrow>
                      (Some (Json 404 ''Client not found''
                               ''The requested client does not exist''),
                       [QueryClients cid])
                  | (None, Some c) \<Rightarrow>
                      if userRole = ''client'' \<and> client_user_id c \<noteq> Some userId then
                        (Some (Json 403 ''Access denied''
                                 ''You can only access your own client data''),
                         [QueryClients cid])
                      else if userRole \<noteq> ''client'' \<and> workspaceOwnerId c \<noteq> Some userId then
                        (Some (Json 403 ''Access denied''
                                 ''You do not have access to this client''),
                         [QueryClients cid])
                      else (None, [QueryClients cid]))))"

text \<open>
  The whole stage. \<open>req.user.id\<close> on a request without \<open>req.user\<close> throws a
  \<open>TypeError\<close> inside the \<open>try\<close>, which the \<open>catch\<close> block answers.
\<close>

definition requireWorkspaceAccess :: "env \<Rightarrow> request \<Rightarrow> outcome \<times> query list" where
  "requireWorkspaceAccess e req =
     (case req_user req of
        None \<Rightarrow> (accessCatch, [])
      | Some u \<Rightarrow>
          if users_role u = ''admin'' then (Next, [])
          else
            (case checkWorkspace e (users_id u) (params_workspaceId req) of
               (Some response, qs) \<Rightarrow> (response, qs)
             | (None, qs) \<Rightarrow>
                 (case checkClient e (users_id u) (users_role u) (params_clientId req) of
                    (Some response, qs') \<Rightarrow> (response, qs @ qs')
                  | (None, qs') \<Rightarrow> (Next, qs @ qs'))))"

subsection \<open>Sample rows, collaborators and requests\<close>

definition admin_user :: user where
  "admin_user = \<lparr>users_id = ''u0'', users_role = ''admin'', users_status = ''active''\<rparr>"

definition agency_user :: user where
  "agency_user = \<lparr>users_id = ''u1'', users_role = ''agency'', users_status = ''active''\<rparr>"

definition client_caller :: user where
  "client_caller = \<lparr>users_id = ''u2'', users_role = ''client'', users_status = ''active''\<rparr>"

definition creator_user :: user where
  "creator_user = \<lparr>users_id = ''u3'', users_role = ''creator'', users_status = ''active''\<rparr>"

definition suspended_user :: user where
  "suspended_user = \<lparr>users_id = ''u4'', users_role = ''admin'', users_status = ''suspended''\<rparr>"

text \<open>Workspace \<open>w1\<close>: owned by \<open>u1\<close>; \<open>u3\<close> is an active member, \<open>u2\<close> a pending one.\<close>

definition agency_workspace :: workspace where
  "agency_workspace =
     \<lparr>owner_id = ''u1'',
      workspace_members =
        [\<lparr>member_user_id = ''u3'', member_status = ''active''\<rparr>,
         \<lparr>member_user_id = ''u2'', member_status = ''pending''\<rparr>]\<rparr>"

text \<open>Workspace \<open>w2\<close>: owned by \<open>u5\<close>, without members.\<close>

definition other_workspace :: workspace where
  "other_workspace = \<lparr>owner_id = ''u5'', workspace_members = []\<rparr>"

text \<open>
  Client \<open>c1\<close>: created by \<open>u3\<close>, linked to the login \<open>u2\<close>, grouped under workspace
  \<open>w1\<close>. Client \<open>c2\<close>: created by \<open>u3\<close>, without login and without workspace.
\<close>

definition linked_client :: client where
  "linked_client =
     \<lparr>client_user_id = Some ''u2'', creator_id = ''u3'',
      client_workspace = Some \<lparr>owner_id = ''u1''\<rparr>\<rparr>"

definition loose_client :: client where
  "loose_client =
     \<lparr>client_user_id = None, creator_id = ''u3'', client_workspace = None\<rparr>"

text \<open>
  A JWT library that knows five tokens, and a store with the rows above. The lookup of
  user \<open>u6\<close> resolves with an error object of the store, the lookup of user \<open>u7\<close>
  rejects; every other id has no row (\<open>single()\<close> reports \<open>PGRST116\<close>).
\<close>

definition sample_env :: env where
  "sample_env =
     \<lparr>jwt_verify = (\<lambda>token.
        if token = ''tok.u1'' then Decoded (Some ''u1'')
        else if token = ''tok.u4'' then Decoded (Some ''u4'')
        else if token = ''tok.u6'' then Decoded (Some ''u6'')
        else if token = ''tok.u7'' then Decoded (Some ''u7'')
        else if token = ''tok.u9'' then Decoded (Some ''u9'')
        else if token = ''tok.old'' then JwtThrows ''TokenExpiredError''
        else JwtThrows ''JsonWebTokenError''),
      from_users = (\<lambda>v.
        if v = Some ''u1'' then Resolved (Some agency_user) None
        else if v = Some ''u4'' then Resolved (Some suspended_user) None
        else if v = Some ''u6'' then Resolved None (Some ''57P03'')
        else if v = Some ''u7'' then Rejected ''TypeError''
        else Resolved None (Some ''PGRST116'')),
      from_workspaces = (\<lambda>v.
        if v = ''w1'' then Resolved (Some agency_workspace) None
        else if v = ''w2'' then Resolved (Some other_workspace) None
        else Resolved None (Some ''PGRST116'')),
      from_clients = (\<lambda>v.
        if v = ''c1'' then Resolved (Some linked_client) None
        else if v = ''c2'' then Resolved (Some loose_client) None
        else Resolved None (Some ''PGRST116''))\<rparr>"

text \<open>A request as it reaches \<open>authenticateToken\<close>, by its authorization header.\<close>

definition incoming :: "string option \<Rightarrow> request" where
  "incoming h =
     \<lparr>headers_authorization = h, params_workspaceId = None, params_clientId = None,
      req_user = None\<rparr>"

text \<open>A request as it reaches the gates: route parameters and resolved identity.\<close>

definition routed :: "string option \<Rightarrow> string option \<Rightarrow> user \<Rightarrow> request" where
  "routed workspaceId clientId u =
     \<lparr>headers_authorization = Some ''Bearer tok'', params_workspaceId = workspaceId,
      params_clientId = clientId, req_user = Some u\<rparr>"

section \<open>Properties\<close>

subsection \<open>Role gate\<close>

text \<open>
  C5. For a request with a resolved identity, \<open>requireRole\<close> proceeds exactly when the
  identity's role is a member of the allow-list (string equality, no hierarchy), and answers
  403 for every role outside the list; \<open>admin\<close> gets no implicit pass.
\<close>

theorem requireRole_exact_membership:
  assumes "req_user req = Some u"
  shows "(requireRole rs req = Next \<longleftrightarrow> users_role u \<in> set (allowedRoles rs))
       \<and> (users_role u \<notin> set (allowedRoles rs) \<longrightarrow>
            status_of (requireRole rs req) = Some 403)
       \<and> (users_role u = ''admin'' \<and> ''admin'' \<notin> set (allowedRoles rs) \<longrightarrow>
            status_of (requireRole rs req) = Some 403)"
  using assms by (simp add: requireRole_def)

theorem requireRole_exact_membership_witness:
  "req_user (routed None None admin_user) = Some admin_user
   \<and> users_role admin_user = ''admin''
   \<and> ''admin'' \<notin> set (allowedRoles (Roles [''agency'', ''creator'']))
   \<and> requireRole (Roles [''agency'', ''creator'']) (routed None None admin_user) \<noteq> Next
   \<and> status_of (requireRole (Roles [''agency'', ''creator'']) (routed None None admin_user))
       = Some 403
   \<and> requireRole (Roles [''agency'', ''creator'']) (routed None None creator_user) = Next
   \<and> requireRole (Role ''admin'') (routed None None admin_user) = Next"
proof -
  have h: "req_user (routed None None admin_user) = Some admin_user"
    and h': "req_user (routed None None creator_user) = Some creator_user"
    by (simp_all add: routed_def)
  show ?thesis
    using requireRole_exact_membership [OF h, of "Roles [''agency'', ''creator'']"]
      requireRole_exact_membership [OF h', of "Roles [''agency'', ''creator'']"]
      requireRole_exact_membership [OF h, of "Role ''admin''"] h
    by (simp add: admin_user_def creator_user_def)
qed

subsection \<open>Ownership gate: administrators\<close>

text \<open>
  C4. For a request whose resolved caller has the role \<open>admin\<close>, \<open>requireWorkspaceAccess\<close>
  calls the next stage and writes no response, whatever workspace and client identifiers the
  route carries and whatever the store holds about ownership and membership.
\<close>

theorem admin_always_proceeds:
  assumes "req_user req = Some u" and "users_role u = ''admin''"
  shows "fst (requireWorkspaceAccess e req) = Next
       \<and> status_of (fst (requireWorkspaceAccess e req)) = None"
  using assms by (simp add: requireWorkspaceAccess_def)

theorem admin_always_proceeds_witness:
  "req_user (routed (Some ''w2'') (Some ''c2'') admin_user) = Some admin_user
   \<and> users_role admin_user = ''admin''
   \<and> fst (requireWorkspaceAccess sample_env (routed (Some ''w2'') (Some ''c2'') admin_user))
       = Next"
proof -
  have h: "req_user (routed (Some ''w2'') (Some ''c2'') admin_user) = Some admin_user"
    by (simp add: routed_def)
  have r: "users_role admin_user = ''admin''"
    by (simp add: admin_user_def)
  show ?thesis
    using admin_always_proceeds [OF h r, of sample_env] h r by simp
qed

text \<open>
  C9. For an admin caller the gate returns before it issues any query: the list of queries
  is empty, so a workspace id or client id without a row cannot produce the 404 that other
  callers get; the request proceeds.
\<close>

theorem admin_returns_before_lookup:
  assumes "req_user req = Some u" and "users_role u = ''admin''"
  shows "requireWorkspaceAccess e req = (Next, [])"
  using assms by (simp add: requireWorkspaceAccess_def)

theorem admin_returns_before_lookup_witness:
  "req_user (routed (Some ''w404'') (Some ''c404'') admin_user) = Some admin_user
   \<and> users_role admin_user = ''admin''
   \<and> from_workspaces sample_env ''w404'' = Resolved None (Some ''PGRST116'')
   \<and> from_clients sample_env ''c404'' = Resolved None (Some ''PGRST116'')
   \<and> requireWorkspaceAccess sample_env (routed (Some ''w404'') (Some ''c404'') admin_user)
       = (Next, [])
   \<and> status_of (fst (requireWorkspaceAccess sample_env
         (routed (Some ''w404'') (Some ''c404'') agency_user))) = Some 404"
proof -
  have h: "req_user (routed (Some ''w404'') (Some ''c404'') admin_user) = Some admin_user"
    by (simp add: routed_def)
  have r: "users_role admin_user = ''admin''"
    by (simp add: admin_user_def)
  have other: "status_of (fst (requireWorkspaceAccess sample_env
         (routed (Some ''w404'') (Some ''c404'') agency_user))) = Some 404"
    by (simp add: requireWorkspaceAccess_def checkWorkspace_def routed_def agency_user_def
        sample_env_def)
  show ?thesis
    using admin_returns_before_lookup [OF h r, of sample_env] h r other
    by (simp add: sample_env_def)
qed

subsection \<open>Ownership gate: the workspace block\<close>

text \<open>What the client block contributes once the workspace block has let the request through.\<close>

lemma requireWorkspaceAccess_after_workspace:
  assumes "req_user req = Some u" and "users_role u \<noteq> ''admin''"
    and "checkWorkspace e (users_id u) (params_workspaceId req) = (None, qs)"
  shows "requireWorkspaceAccess e req =
           (case checkClient e (users_id u) (users_role u) (params_clientId req) of
              (Some response, qs') \<Rightarrow> (response, qs @ qs')
            | (None, qs') \<Rightarrow> (Next, qs @ qs'))"
  using assms by (simp add: requireWorkspaceAccess_def)

lemma requireWorkspaceAccess_stopped_by_workspace:
  assumes "req_user req = Some u" and "users_role u \<noteq> ''admin''"
    and "checkWorkspace e (users_id u) (params_workspaceId req) = (Some response, qs)"
  shows "requireWorkspaceAccess e req = (response, qs)"
  using assms by (simp add: requireWorkspaceAccess_def)

text \<open>
  C1. For a non-admin caller and a request with a workspace id whose lookup resolves: if
  there is no row (or the store reports an error) the gate answers 404 having issued the
  workspace query only; if the row exists and the caller is neither its owner nor a member
  with status \<open>active\<close> the gate answers 403; and if the caller is the owner or an active
  member the request passes the workspace block, so that the gate's result is what the client
  block decides (\<open>next()\<close> when the route has no client id).
\<close>

theorem workspace_check_owner_or_active_member:
  assumes "req_user req = Some u" and "users_role u \<noteq> ''admin''"
    and "params_workspaceId req = Some wid" and "wid \<noteq> []"
    and "from_workspaces e wid = Resolved data error"
  shows "(data = None \<or> error \<noteq> None \<longrightarrow>
            requireWorkspaceAccess e req =
              (Json 404 ''Workspace not found'' ''The requested workspace does not exist'',
               [QueryWorkspaces wid]))
       \<and> (\<forall>w. data = Some w \<and> error = None \<longrightarrow>
            (if owner_id w = users_id u
                \<or> (\<exists>m \<in> set (workspace_members w).
                      member_user_id m = users_id u \<and> member_status m = ''active'')
             then requireWorkspaceAccess e req =
                    (case checkClient e (users_id u) (users_role u) (params_clientId req) of
                       (Some response, qs') \<Rightarrow> (response, QueryWorkspaces wid # qs')
                     | (None, qs') \<Rightarrow> (Next, QueryWorkspaces wid # qs'))
                  \<and> (params_clientId req = None \<longrightarrow>
                       requireWorkspaceAccess e req = (Next, [QueryWorkspaces wid]))
             else requireWorkspaceAccess e req =
                    (Json 403 ''Access denied'' ''You do not have access to this workspace'',
                     [QueryWorkspaces wid])))"
proof (intro conjI allI impI)
  assume "data = None \<or> error \<noteq> None"
  then have "checkWorkspace e (users_id u) (params_workspaceId req) =
      (Some (Json 404 ''Workspace not found'' ''The requested workspace does not exist''),
       [QueryWorkspaces wid])"
    using assms(3-5) by (auto simp: checkWorkspace_def split: option.splits)
  then show "requireWorkspaceAccess e req =
      (Json 404 ''Workspace not found'' ''The requested workspace does not exist'',
       [QueryWorkspaces wid])"
    using assms(1,2) by (rule requireWorkspaceAccess_stopped_by_workspace [rotated 2])
next
  fix w
  assume row: "data = Some w \<and> error = None"
  let ?allowed = "owner_id w = users_id u
      \<or> (\<exists>m \<in> set (workspace_members w).
            member_user_id m = users_id u \<and> member_status m = ''active'')"
  show "if ?allowed
        then requireWorkspaceAccess e req =
               (case checkClient e (users_id u) (users_role u) (params_clientId req) of
                  (Some response, qs') \<Rightarrow> (response, QueryWorkspaces wid # qs')
                | (None, qs') \<Rightarrow> (Next, QueryWorkspaces wid # qs'))
             \<and> (params_clientId req = None \<longrightarrow>
                  requireWorkspaceAccess e req = (Next, [QueryWorkspaces wid]))
        else requireWorkspaceAccess e req =
               (Json 403 ''Access denied'' ''You do not have access to this workspace'',
                [QueryWorkspaces wid])"
  proof (cases ?allowed)
    case True
    then have "checkWorkspace e (users_id u) (params_workspaceId req) =
        (None, [QueryWorkspaces wid])"
      using assms(3-5) row
      by (auto simp: checkWorkspace_def isOwner_def isMember_def list_ex_iff)
    from requireWorkspaceAccess_after_workspace [OF assms(1,2) this]
    have after: "requireWorkspaceAccess e req =
        (case checkClient e (users_id u) (users_role u) (params_clientId req) of
           (Some response, qs') \<Rightarrow> (response, QueryWorkspaces wid # qs')
         | (None, qs') \<Rightarrow> (Next, QueryWorkspaces wid # qs'))"
      by (simp split: prod.splits option.splits)
    have "requireWorkspaceAccess e req = (Next, [QueryWorkspaces wid])"
      if "params_clientId req = None"
      using after that by (simp add: checkClient_def)
    with after True show ?thesis by simp
  next
    case False
    then have "checkWorkspace e (users_id u) (params_workspaceId req) =
        (Some (Json 403 ''Access denied'' ''You do not have access to this workspace''),
         [QueryWorkspaces wid])"
      using assms(3-5) row
      by (auto simp: checkWorkspace_def isOwner_def isMember_def list_ex_iff)
    from requireWorkspaceAccess_stopped_by_workspace [OF assms(1,2) this] False
    show ?thesis by (simp only: if_False)
  qed
qed

theorem workspace_check_owner_or_active_member_witness:
  "req_user (routed (Some ''w1'') None creator_user) = Some creator_user
   \<and> users_role creator_user \<noteq> ''admin''
   \<and> from_workspaces sample_env ''w1'' = Resolved (Some agency_workspace) None
   \<and> from_workspaces sample_env ''w404'' = Resolved None (Some ''PGRST116'')
   \<and> requireWorkspaceAccess sample_env (routed (Some ''w404'') None creator_user) =
        (Json 404 ''Workspace not found'' ''The requested workspace does not exist'',
         [QueryWorkspaces ''w404''])
   \<and> requireWorkspaceAccess sample_env (routed (Some ''w1'') None agency_user) =
        (Next, [QueryWorkspaces ''w1''])
   \<and> requireWorkspaceAccess sample_env (routed (Some ''w1'') None creator_user) =
        (Next, [QueryWorkspaces ''w1''])
   \<and> requireWorkspaceAccess sample_env (routed (Some ''w1'') None client_caller) =
        (Json 403 ''Access denied'' ''You do not have access to this workspace'',
         [QueryWorkspaces ''w1''])"
proof -
  have missing: "from_workspaces sample_env ''w404'' = Resolved None (Some ''PGRST116'')"
    and present: "from_workspaces sample_env ''w1'' = Resolved (Some agency_workspace) None"
    by (simp_all add: sample_env_def)
  have not_found:
    "requireWorkspaceAccess sample_env (routed (Some ''w404'') None creator_user) =
       (Json 404 ''Workspace not found'' ''The requested workspace does not exist'',
        [QueryWorkspaces ''w404''])"
    using workspace_check_owner_or_active_member
      [of "routed (Some ''w404'') None creator_user" creator_user "''w404''" sample_env
        None "Some ''PGRST116''"] missing
    by (simp add: routed_def creator_user_def)
  have owner:
    "requireWorkspaceAccess sample_env (routed (Some ''w1'') None agency_user) =
       (Next, [QueryWorkspaces ''w1''])"
    using workspace_check_owner_or_active_member
      [of "routed (Some ''w1'') None agency_user" agency_user "''w1''" sample_env
        "Some agency_workspace" None] present
    by (simp add: routed_def agency_user_def agency_workspace_def checkClient_def)
  have member:
    "requireWorkspaceAccess sample_env (routed (Some ''w1'') None creator_user) =
       (Next, [QueryWorkspaces ''w1''])"
    using workspace_check_owner_or_active_member
      [of "routed (Some ''w1'') None creator_user" creator_user "''w1''" sample_env
        "Some agency_workspace" None] present
    by (simp add: routed_def creator_user_def agency_workspace_def checkClient_def)
  have pending:
    "requireWorkspaceAccess sample_env (routed (Some ''w1'') None client_caller) =
       (Json 403 ''Access denied'' ''You do not have access to this workspace'',
        [QueryWorkspaces ''w1''])"
    using workspace_check_owner_or_active_member
      [of "routed (Some ''w1'') None client_caller" client_caller "''w1''" sample_env
        "Some agency_workspace" None] present
    by (simp add: routed_def client_caller_def agency_workspace_def)
  show ?thesis
    using not_found owner member pending missing present
    by (simp add: routed_def creator_user_def)
qed

subsection \<open>Ownership gate: the client block\<close>

text \<open>
  The workspace block lets a request through when the route has no workspace id, and when
  the workspace exists and the caller owns it or is an active member of it.
\<close>

lemma checkWorkspace_falls_through:
  assumes "workspaceId = None
    \<or> (\<exists>wid w. workspaceId = Some wid
          \<and> from_workspaces e wid = Resolved (Some w) None
          \<and> (owner_id w = userId
              \<or> (\<exists>m \<in> set (workspace_members w).
                    member_user_id m = userId \<and> member_status m = ''active'')))"
  shows "\<exists>qs. checkWorkspace e userId workspaceId = (None, qs)"
  using assms
  by (auto simp: checkWorkspace_def isOwner_def isMember_def list_ex_iff)

lemma checkClient_client_role:
  assumes "cid \<noteq> []" and "from_clients e cid = Resolved data error"
  shows "fst (checkClient e userId ''client'' (Some cid)) =
     (case (error, data) of
        (Some err, _) \<Rightarrow>
          Some (Json 404 ''Client not found'' ''The requested client does not exist'')
      | (None, None) \<Rightarrow>
          Some (Json 404 ''Client not found'' ''The requested client does not exist'')
      | (None, Some c) \<Rightarrow>
          if client_user_id c = Some userId then None
          else Some (Json 403 ''Access denied'' ''You can only access your own client data''))"
  using assms by (auto simp: checkClient_def split: option.splits)

lemma checkClient_other_role:
  assumes "cid \<noteq> []" and "from_clients e cid = Resolved data error"
    and "userRole \<noteq> ''client''"
  shows "fst (checkClient e userId userRole (Some cid)) =
     (case (error, data) of
        (Some err, _) \<Rightarrow>
          Some (Json 404 ''Client not found'' ''The requested client does not exist'')
      | (None, None) \<Rightarrow>
          Some (Json 404 ''Client not found'' ''The requested client does not exist'')
      | (None, Some c) \<Rightarrow>
          if map_option owner_id (client_workspace c) = Some userId then None
          else Some (Json 403 ''Access denied'' ''You do not have access to this client''))"
  using assms by (auto simp: checkClient_def workspaceOwnerId_def split: option.splits)

lemma requireWorkspaceAccess_outcome_after_workspace:
  assumes "req_user req = Some u" and "users_role u \<noteq> ''admin''"
    and "checkWorkspace e (users_id u) (params_workspaceId req) = (None, qs)"
  shows "fst (requireWorkspaceAccess e req) =
           (case fst (checkClient e (users_id u) (users_role u) (params_clientId req)) of
              Some response \<Rightarrow> response
            | None \<Rightarrow> Next)"
  using requireWorkspaceAccess_after_workspace [OF assms]
  by (simp split: prod.splits option.splits)

text \<open>
  C2 (as amended). For a caller with the role \<open>client\<close> and a request with a client id
  whose lookup resolves, once the workspace block has let the request through (no workspace
  id, or the caller owns the workspace or is an active member of it): the gate proceeds
  exactly when the client row exists and its linked user id equals the caller's id, answers
  403 when the row exists and the linked user differs (or is null), and answers 404 when
  there is no row.
\<close>

theorem client_role_linked_user_only:
  assumes "req_user req = Some u" and "users_role u = ''client''"
    and "params_clientId req = Some cid" and "cid \<noteq> []"
    and "from_clients e cid = Resolved data error"
    and "params_workspaceId req = None
      \<or> (\<exists>wid w. params_workspaceId req = Some wid
            \<and> from_workspaces e wid = Resolved (Some w) None
            \<and> (owner_id w = users_id u
                \<or> (\<exists>m \<in> set (workspace_members w).
                      member_user_id m = users_id u \<and> member_status m = ''active'')))"
  shows "(fst (requireWorkspaceAccess e req) = Next \<longleftrightarrow>
            (\<exists>c. data = Some c \<and> error = None \<and> client_user_id c = Some (users_id u)))
       \<and> (\<forall>c. data = Some c \<and> error = None \<and> client_user_id c \<noteq> Some (users_id u) \<longrightarrow>
            fst (requireWorkspaceAccess e req) =
              Json 403 ''Access denied'' ''You can only access your own client data'')
       \<and> (data = None \<or> error \<noteq> None \<longrightarrow>
            fst (requireWorkspaceAccess e req) =
              Json 404 ''Client not found'' ''The requested client does not exist'')"
proof -
  from checkWorkspace_falls_through [OF assms(6)]
  obtain qs where "checkWorkspace e (users_id u) (params_workspaceId req) = (None, qs)" ..
  with assms(1,2) have "fst (requireWorkspaceAccess e req) =
      (case fst (checkClient e (users_id u) (users_role u) (params_clientId req)) of
         Some response \<Rightarrow> response
       | None \<Rightarrow> Next)"
    by (intro requireWorkspaceAccess_outcome_after_workspace) auto
  then have "fst (requireWorkspaceAccess e req) =
      (case (error, data) of
         (Some err, _) \<Rightarrow> Json 404 ''Client not found'' ''The requested client does not exist''
       | (None, None) \<Rightarrow> Json 404 ''Client not found'' ''The requested client does not exist''
       | (None, Some c) \<Rightarrow>
           if client_user_id c = Some (users_id u) then Next
           else Json 403 ''Access denied'' ''You can only access your own client data'')"
    using checkClient_client_role [OF assms(4,5), of "users_id u"] assms(2,3)
    by (simp split: option.splits)
  then show ?thesis
    by (auto split: option.splits)
qed

theorem client_role_linked_user_only_witness:
  "req_user (routed None (Some ''c1'') client_caller) = Some client_caller
   \<and> users_role client_caller = ''client''
   \<and> from_clients sample_env ''c1'' = Resolved (Some linked_client) None
   \<and> from_clients sample_env ''c2'' = Resolved (Some loose_client) None
   \<and> from_clients sample_env ''c404'' = Resolved None (Some ''PGRST116'')
   \<and> client_user_id linked_client = Some (users_id client_caller)
   \<and> client_user_id loose_client \<noteq> Some (users_id client_caller)
   \<and> fst (requireWorkspaceAccess sample_env (routed None (Some ''c1'') client_caller)) = Next
   \<and> fst (requireWorkspaceAccess sample_env (routed None (Some ''c2'') client_caller)) =
        Json 403 ''Access denied'' ''You can only access your own client data''
   \<and> fst (requireWorkspaceAccess sample_env (routed None (Some ''c404'') client_caller)) =
        Json 404 ''Client not found'' ''The requested client does not exist''"
proof -
  have rows: "from_clients sample_env ''c1'' = Resolved (Some linked_client) None"
    "from_clients sample_env ''c2'' = Resolved (Some loose_client) None"
    "from_clients sample_env ''c404'' = Resolved None (Some ''PGRST116'')"
    by (simp_all add: sample_env_def)
  have own: "fst (requireWorkspaceAccess sample_env (routed None (Some ''c1'') client_caller))
      = Next"
    using client_role_linked_user_only
      [of "routed None (Some ''c1'') client_caller" client_caller "''c1''" sample_env
        "Some linked_client" None] rows
    by (simp add: routed_def client_caller_def linked_client_def)
  have foreign:
    "fst (requireWorkspaceAccess sample_env (routed None (Some ''c2'') client_caller)) =
       Json 403 ''Access denied'' ''You can only access your own client data''"
    using client_role_linked_user_only
      [of "routed None (Some ''c2'') client_caller" client_caller "''c2''" sample_env
        "Some loose_client" None] rows
    by (simp add: routed_def client_caller_def loose_client_def)
  have missing:
    "fst (requireWorkspaceAccess sample_env (routed None (Some ''c404'') client_caller)) =
       Json 404 ''Client not found'' ''The requested client does not exist''"
    using client_role_linked_user_only
      [of "routed None (Some ''c404'') client_caller" client_caller "''c404''" sample_env
        None "Some ''PGRST116''"] rows
    by (simp add: routed_def client_caller_def)
  show ?thesis
    using own foreign missing rows
    by (simp add: routed_def client_caller_def linked_client_def loose_client_def)
qed

text \<open>
  C2 as stated fails when the route carries a workspace id as well: caller \<open>u2\<close> has the
  role \<open>client\<close> and is the linked user of client \<open>c1\<close>, but is only a pending member of
  workspace \<open>w1\<close>, and the gate answers 403 from the workspace block before the client is
  looked up.
\<close>

theorem client_role_linked_user_counterexample:
  "users_role client_caller = ''client''
   \<and> from_clients sample_env ''c1'' = Resolved (Some linked_client) None
   \<and> client_user_id linked_client = Some (users_id client_caller)
   \<and> requireWorkspaceAccess sample_env (routed (Some ''w1'') (Some ''c1'') client_caller) =
        (Json 403 ''Access denied'' ''You do not have access to this workspace'',
         [QueryWorkspaces ''w1''])"
  by (simp add: requireWorkspaceAccess_def checkWorkspace_def isOwner_def isMember_def
      routed_def client_caller_def linked_client_def agency_workspace_def sample_env_def)

text \<open>
  C3 (as amended). For a caller whose role is neither \<open>client\<close> nor \<open>admin\<close> and a
  request with a client id whose lookup resolves, once the workspace block has let the
  request through: the gate proceeds exactly when the client row exists, has a nested
  workspace, and that workspace's \<open>owner_id\<close> equals the caller's id; any other existing row
  gives 403, also when the caller is the client's \<open>creator_id\<close>; and the gate's result does
  not change when the row's \<open>creator_id\<close> is replaced by any other value.
\<close>

theorem other_role_nested_workspace_owner_only:
  assumes "req_user req = Some u"
    and "users_role u \<noteq> ''client''" and "users_role u \<noteq> ''admin''"
    and "params_clientId req = Some cid" and "cid \<noteq> []"
    and "from_clients e cid = Resolved data error"
    and "params_workspaceId req = None
      \<or> (\<exists>wid w. params_workspaceId req = Some wid
            \<and> from_workspaces e wid = Resolved (Some w) None
            \<and> (owner_id w = users_id u
                \<or> (\<exists>m \<in> set (workspace_members w).
                      member_user_id m = users_id u \<and> member_status m = ''active'')))"
  shows "(fst (requireWorkspaceAccess e req) = Next \<longleftrightarrow>
            (\<exists>c w. data = Some c \<and> error = None \<and> client_workspace c = Some w
                 \<and> owner_id w = users_id u))
       \<and> (\<forall>c. data = Some c \<and> error = None
              \<and> map_option owner_id (client_workspace c) \<noteq> Some (users_id u) \<longrightarrow>
            fst (requireWorkspaceAccess e req) =
              Json 403 ''Access denied'' ''You do not have access to this client'')
       \<and> (\<forall>c x. data = Some c \<longrightarrow>
            requireWorkspaceAccess
              (e\<lparr>from_clients :=
                   (from_clients e)(cid := Resolved (Some (c\<lparr>creator_id := x\<rparr>)) error)\<rparr>) req
              = requireWorkspaceAccess e req)"
proof (intro conjI)
  from checkWorkspace_falls_through [OF assms(7)]
  obtain qs where "checkWorkspace e (users_id u) (params_workspaceId req) = (None, qs)" ..
  with assms(1,3) have outcome: "fst (requireWorkspaceAccess e req) =
      (case fst (checkClient e (users_id u) (users_role u) (params_clientId req)) of
         Some response \<Rightarrow> response
       | None \<Rightarrow> Next)"
    by (intro requireWorkspaceAccess_outcome_after_workspace) auto
  have block: "fst (checkClient e (users_id u) (users_role u) (params_clientId req)) =
      (case (error, data) of
         (Some err, _) \<Rightarrow>
           Some (Json 404 ''Client not found'' ''The requested client does not exist'')
       | (None, None) \<Rightarrow>
           Some (Json 404 ''Client not found'' ''The requested client does not exist'')
       | (None, Some c) \<Rightarrow>
           if map_option owner_id (client_workspace c) = Some (users_id u) then None
           else Some (Json 403 ''Access denied'' ''You do not have access to this client''))"
    using checkClient_other_role [OF assms(5,6,2), of "users_id u"] assms(4)
    by (simp only:)
  have decision: "fst (requireWorkspaceAccess e req) =
      (case (error, data) of
         (Some err, _) \<Rightarrow> Json 404 ''Client not found'' ''The requested client does not exist''
       | (None, None) \<Rightarrow> Json 404 ''Client not found'' ''The requested client does not exist''
       | (None, Some c) \<Rightarrow>
           if map_option owner_id (client_workspace c) = Some (users_id u) then Next
           else Json 403 ''Access denied'' ''You do not have access to this client'')"
    unfolding outcome block by (auto split: option.splits)
  show "fst (requireWorkspaceAccess e req) = Next \<longleftrightarrow>
      (\<exists>c w. data = Some c \<and> error = None \<and> client_workspace c = Some w
           \<and> owner_id w = users_id u)"
    using decision by (auto split: option.splits)
  show "\<forall>c. data = Some c \<and> error = None
        \<and> map_option owner_id (client_workspace c) \<noteq> Some (users_id u) \<longrightarrow>
      fst (requireWorkspaceAccess e req) =
        Json 403 ''Access denied'' ''You do not have access to this client''"
    using decision by (auto split: option.splits)
  show "\<forall>c x. data = Some c \<longrightarrow>
      requireWorkspaceAccess
        (e\<lparr>from_clients :=
             (from_clients e)(cid := Resolved (Some (c\<lparr>creator_id := x\<rparr>)) error)\<rparr>) req
        = requireWorkspaceAccess e req"
    using assms(1,4,5,6)
    by (auto simp: requireWorkspaceAccess_def checkWorkspace_def checkClient_def
        workspaceOwnerId_def split: option.splits query_result.splits prod.splits)
qed

theorem other_role_nested_workspace_owner_only_witness:
  "req_user (routed None (Some ''c1'') agency_user) = Some agency_user
   \<and> users_role agency_user \<noteq> ''client'' \<and> users_role agency_user \<noteq> ''admin''
   \<and> from_clients sample_env ''c1'' = Resolved (Some linked_client) None
   \<and> client_workspace linked_client = Some \<lparr>owner_id = users_id agency_user\<rparr>
   \<and> creator_id linked_client = users_id creator_user
   \<and> fst (requireWorkspaceAccess sample_env (routed None (Some ''c1'') agency_user)) = Next
   \<and> fst (requireWorkspaceAccess sample_env (routed None (Some ''c1'') creator_user)) =
        Json 403 ''Access denied'' ''You do not have access to this client''"
proof -
  have row: "from_clients sample_env ''c1'' = Resolved (Some linked_client) None"
    by (simp add: sample_env_def)
  have owner: "fst (requireWorkspaceAccess sample_env (routed None (Some ''c1'') agency_user))
      = Next"
    using other_role_nested_workspace_owner_only
      [of "routed None (Some ''c1'') agency_user" agency_user "''c1''" sample_env
        "Some linked_client" None] row
    by (simp add: routed_def agency_user_def linked_client_def)
  have creator:
    "fst (requireWorkspaceAccess sample_env (routed None (Some ''c1'') creator_user)) =
       Json 403 ''Access denied'' ''You do not have access to this client''"
    using other_role_nested_workspace_owner_only
      [of "routed None (Some ''c1'') creator_user" creator_user "''c1''" sample_env
        "Some linked_client" None] row
    by (simp add: routed_def creator_user_def linked_client_def)
  show ?thesis
    using owner creator row
    by (simp add: routed_def agency_user_def creator_user_def linked_client_def)
qed

text \<open>
  C3 as stated fails when the route carries a workspace id as well: caller \<open>u1\<close> (role
  \<open>agency\<close>) owns the workspace nested in client \<open>c1\<close>, but has no part in workspace
  \<open>w2\<close> of the route, and the gate answers 403 from the workspace block.
\<close>

theorem other_role_nested_workspace_owner_counterexample:
  "users_role agency_user = ''agency''
   \<and> from_clients sample_env ''c1'' = Resolved (Some linked_client) None
   \<and> map_option owner_id (client_workspace linked_client) = Some (users_id agency_user)
   \<and> requireWorkspaceAccess sample_env (routed (Some ''w2'') (Some ''c1'') agency_user) =
        (Json 403 ''Access denied'' ''You do not have access to this workspace'',
         [QueryWorkspaces ''w2''])"
  by (simp add: requireWorkspaceAccess_def checkWorkspace_def isOwner_def isMember_def
      routed_def agency_user_def linked_client_def other_workspace_def sample_env_def)

text \<open>
  C10 (as amended). For a caller whose role is neither \<open>client\<close> nor \<open>admin\<close> and a
  request with a client id whose row exists with a null nested workspace: the gate never
  proceeds; and once the workspace block has let the request through, the gate answers 403
  (not the 500 of the \<open>catch\<close> block), since the absent owner id differs from every caller
  id.
\<close>

theorem client_without_workspace_denied:
  assumes "req_user req = Some u"
    and "users_role u \<noteq> ''client''" and "users_role u \<noteq> ''admin''"
    and "params_clientId req = Some cid" and "cid \<noteq> []"
    and "from_clients e cid = Resolved (Some c) None"
    and "client_workspace c = None"
  shows "fst (requireWorkspaceAccess e req) \<noteq> Next
       \<and> (params_workspaceId req = None
            \<or> (\<exists>wid w. params_workspaceId req = Some wid
                  \<and> from_workspaces e wid = Resolved (Some w) None
                  \<and> (owner_id w = users_id u
                      \<or> (\<exists>m \<in> set (workspace_members w).
                            member_user_id m = users_id u \<and> member_status m = ''active'')))
          \<longrightarrow> fst (requireWorkspaceAccess e req) =
                Json 403 ''Access denied'' ''You do not have access to this client'')"
proof (intro conjI impI)
  have blocked: "fst (checkClient e (users_id u) (users_role u) (params_clientId req)) =
      Some (Json 403 ''Access denied'' ''You do not have access to this client'')"
    using checkClient_other_role [OF assms(5,6,2), of "users_id u"] assms(4,7)
    by simp
  show "fst (requireWorkspaceAccess e req) \<noteq> Next"
  proof (cases "checkWorkspace e (users_id u) (params_workspaceId req)")
    case (Pair r qs)
    show ?thesis
    proof (cases r)
      case None
      with Pair requireWorkspaceAccess_outcome_after_workspace [OF assms(1,3), of e qs] blocked
      show ?thesis by simp
    next
      case (Some response)
      with Pair requireWorkspaceAccess_stopped_by_workspace [OF assms(1,3), of e response qs]
      have "fst (requireWorkspaceAccess e req) = response" by simp
      moreover have "response \<noteq> Next"
        using Pair Some
        by (auto simp: checkWorkspace_def accessCatch_def
            split: option.splits if_splits query_result.splits)
      ultimately show ?thesis by simp
    qed
  qed
  assume "params_workspaceId req = None
      \<or> (\<exists>wid w. params_workspaceId req = Some wid
            \<and> from_workspaces e wid = Resolved (Some w) None
            \<and> (owner_id w = users_id u
                \<or> (\<exists>m \<in> set (workspace_members w).
                      member_user_id m = users_id u \<and> member_status m = ''active'')))"
  from checkWorkspace_falls_through [OF this]
  obtain qs where "checkWorkspace e (users_id u) (params_workspaceId req) = (None, qs)" ..
  from requireWorkspaceAccess_outcome_after_workspace [OF assms(1,3) this] blocked
  show "fst (requireWorkspaceAccess e req) =
      Json 403 ''Access denied'' ''You do not have access to this client''"
    by simp
qed

theorem client_without_workspace_denied_witness:
  "req_user (routed None (Some ''c2'') creator_user) = Some creator_user
   \<and> users_role creator_user \<noteq> ''client'' \<and> users_role creator_user \<noteq> ''admin''
   \<and> from_clients sample_env ''c2'' = Resolved (Some loose_client) None
   \<and> client_workspace loose_client = None
   \<and> fst (requireWorkspaceAccess sample_env (routed None (Some ''c2'') creator_user)) =
        Json 403 ''Access denied'' ''You do not have access to this client''
   \<and> fst (requireWorkspaceAccess sample_env (routed (Some ''w1'') (Some ''c2'') creator_user)) =
        Json 403 ''Access denied'' ''You do not have access to this client''"
proof -
  have row: "from_clients sample_env ''c2'' = Resolved (Some loose_client) None"
    and ws: "from_workspaces sample_env ''w1'' = Resolved (Some agency_workspace) None"
    by (simp_all add: sample_env_def)
  have alone:
    "fst (requireWorkspaceAccess sample_env (routed None (Some ''c2'') creator_user)) =
       Json 403 ''Access denied'' ''You do not have access to this client''"
    using client_without_workspace_denied
      [of "routed None (Some ''c2'') creator_user" creator_user "''c2''" sample_env
        loose_client] row
    by (simp add: routed_def creator_user_def loose_client_def)
  have both:
    "fst (requireWorkspaceAccess sample_env (routed (Some ''w1'') (Some ''c2'') creator_user)) =
       Json 403 ''Access denied'' ''You do not have access to this client''"
    using client_without_workspace_denied
      [of "routed (Some ''w1'') (Some ''c2'') creator_user" creator_user "''c2''" sample_env
        loose_client] row ws
    by (simp add: routed_def creator_user_def loose_client_def agency_workspace_def)
  show ?thesis
    using alone both row
    by (simp add: routed_def creator_user_def loose_client_def)
qed

text \<open>
  C10 as stated fails when the route carries a workspace id without a row: the gate answers
  404 from the workspace block, not 403, for the agency caller \<open>u1\<close> and client \<open>c2\<close>,
  which has no workspace.
\<close>

theorem client_without_workspace_counterexample:
  "users_role agency_user = ''agency''
   \<and> from_clients sample_env ''c2'' = Resolved (Some loose_client) None
   \<and> client_workspace loose_client = None
   \<and> requireWorkspaceAccess sample_env (routed (Some ''w404'') (Some ''c2'') agency_user) =
        (Json 404 ''Workspace not found'' ''The requested workspace does not exist'',
         [QueryWorkspaces ''w404''])"
  by (simp add: requireWorkspaceAccess_def checkWorkspace_def
      routed_def agency_user_def loose_client_def sample_env_def)

subsection \<open>Token verifier\<close>

text \<open>
  The credential is the second space-separated field of the authorization header, whatever
  the first field is.
\<close>

lemma split_no_separator: "c \<notin> set xs \<Longrightarrow> split c xs = [xs]"
  by (induction xs) auto

lemma split_at_separator: "c \<notin> set xs \<Longrightarrow> split c (xs @ c # ys) = xs # split c ys"
  by (induction xs) auto

lemma extractToken_no_separator:
  assumes "headers_authorization req = Some h" and "CHR '' '' \<notin> set h"
  shows "extractToken req = None \<or> extractToken req = Some []"
  using assms by (simp add: extractToken_def split_no_separator)

lemma extractToken_two_fields:
  assumes "headers_authorization req = Some (scheme @ CHR '' '' # token)"
    and "CHR '' '' \<notin> set scheme" and "CHR '' '' \<notin> set token"
  shows "extractToken req = Some token"
  using assms by (simp add: extractToken_def split_at_separator split_no_separator)

text \<open>
  C7. A request without a credential (no authorization header, or a header without a second
  field) is answered 401; a credential that the JWT library rejects as malformed
  (\<open>JsonWebTokenError\<close>) or as expired (\<open>TokenExpiredError\<close>) is answered 401 as well, and
  the error of the expired case, \<open>Token expired\<close>, differs from the error of the malformed
  case, \<open>Invalid token\<close>. The request is left without identity in each case.
\<close>

theorem missing_malformed_expired_401:
  "(headers_authorization req = None \<or> extractToken req = None \<or> extractToken req = Some []
      \<longrightarrow> authenticateToken e req =
            (Json 401 ''Access token required'' ''Please provide a valid authentication token'',
             req))
   \<and> (\<forall>h. headers_authorization req = Some h \<and> CHR '' '' \<notin> set h
      \<longrightarrow> status_of (fst (authenticateToken e req)) = Some 401)
   \<and> (\<forall>token. extractToken req = Some token \<and> token \<noteq> []
           \<and> jwt_verify e token = JwtThrows ''JsonWebTokenError''
      \<longrightarrow> authenticateToken e req =
            (Json 401 ''Invalid token'' ''The provided token is malformed'', req))
   \<and> (\<forall>token. extractToken req = Some token \<and> token \<noteq> []
           \<and> jwt_verify e token = JwtThrows ''TokenExpiredError''
      \<longrightarrow> authenticateToken e req = (Json 401 ''Token expired'' ''Please log in again'', req))
   \<and> (\<forall>token token' req'.
         extractToken req = Some token \<and> token \<noteq> []
           \<and> jwt_verify e token = JwtThrows ''JsonWebTokenError''
           \<and> extractToken req' = Some token' \<and> token' \<noteq> []
           \<and> jwt_verify e token' = JwtThrows ''TokenExpiredError''
      \<longrightarrow> fst (authenticateToken e req) \<noteq> fst (authenticateToken e req'))"
proof (intro conjI allI impI)
  assume "headers_authorization req = None \<or> extractToken req = None
    \<or> extractToken req = Some []"
  then have "extractToken req = None \<or> extractToken req = Some []"
    by (auto simp: extractToken_def)
  then show "authenticateToken e req =
      (Json 401 ''Access token required'' ''Please provide a valid authentication token'', req)"
    by (auto simp: authenticateToken_def)
next
  fix h
  assume "headers_authorization req = Some h \<and> CHR '' '' \<notin> set h"
  then have "extractToken req = None \<or> extractToken req = Some []"
    by (intro extractToken_no_separator [of req h]) simp_all
  then show "status_of (fst (authenticateToken e req)) = Some 401"
    by (auto simp: authenticateToken_def)
next
  fix token
  assume "extractToken req = Some token \<and> token \<noteq> []
    \<and> jwt_verify e token = JwtThrows ''JsonWebTokenError''"
  then show "authenticateToken e req =
      (Json 401 ''Invalid token'' ''The provided token is malformed'', req)"
    by (simp add: authenticateToken_def authenticateCatch_def)
next
  fix token
  assume "extractToken req = Some token \<and> token \<noteq> []
    \<and> jwt_verify e token = JwtThrows ''TokenExpiredError''"
  then show "authenticateToken e req = (Json 401 ''Token expired'' ''Please log in again'', req)"
    by (simp add: authenticateToken_def authenticateCatch_def)
next
  fix token token' req'
  assume "extractToken req = Some token \<and> token \<noteq> []
    \<and> jwt_verify e token = JwtThrows ''JsonWebTokenError''
    \<and> extractToken req' = Some token' \<and> token' \<noteq> []
    \<and> jwt_verify e token' = JwtThrows ''TokenExpiredError''"
  then show "fst (authenticateToken e req) \<noteq> fst (authenticateToken e req')"
    by (simp add: authenticateToken_def authenticateCatch_def)
qed

theorem missing_malformed_expired_401_witness:
  "headers_authorization (incoming None) = None
   \<and> extractToken (incoming (Some ''Bearer'')) = None
   \<and> extractToken (incoming (Some ''Bearer '')) = Some []
   \<and> extractToken (incoming (Some ''Bearer tok.bad'')) = Some ''tok.bad''
   \<and> jwt_verify sample_env ''tok.bad'' = JwtThrows ''JsonWebTokenError''
   \<and> extractToken (incoming (Some ''Bearer tok.old'')) = Some ''tok.old''
   \<and> jwt_verify sample_env ''tok.old'' = JwtThrows ''TokenExpiredError''
   \<and> status_of (fst (authenticateToken sample_env (incoming None))) = Some 401
   \<and> status_of (fst (authenticateToken sample_env (incoming (Some ''Bearer'')))) = Some 401
   \<and> status_of (fst (authenticateToken sample_env (incoming (Some ''Bearer '')))) = Some 401
   \<and> fst (authenticateToken sample_env (incoming (Some ''Bearer tok.bad''))) =
        Json 401 ''Invalid token'' ''The provided token is malformed''
   \<and> fst (authenticateToken sample_env (incoming (Some ''Bearer tok.old''))) =
        Json 401 ''Token expired'' ''Please log in again''
   \<and> fst (authenticateToken sample_env (incoming (Some ''Bearer tok.bad''))) \<noteq>
        fst (authenticateToken sample_env (incoming (Some ''Bearer tok.old'')))"
proof -
  have tokens: "extractToken (incoming (Some ''Bearer'')) = None"
    "extractToken (incoming (Some ''Bearer '')) = Some []"
    "extractToken (incoming (Some ''Bearer tok.bad'')) = Some ''tok.bad''"
    "extractToken (incoming (Some ''Bearer tok.old'')) = Some ''tok.old''"
    by (simp_all add: extractToken_def incoming_def)
  have verify: "jwt_verify sample_env ''tok.bad'' = JwtThrows ''JsonWebTokenError''"
    "jwt_verify sample_env ''tok.old'' = JwtThrows ''TokenExpiredError''"
    by (simp_all add: sample_env_def)
  have absent: "headers_authorization (incoming None) = None"
    by (simp add: incoming_def)
  note facts = tokens verify absent
  show ?thesis
    using missing_malformed_expired_401 [of "incoming None" sample_env]
      missing_malformed_expired_401 [of "incoming (Some ''Bearer'')" sample_env]
      missing_malformed_expired_401 [of "incoming (Some ''Bearer '')" sample_env]
      missing_malformed_expired_401 [of "incoming (Some ''Bearer tok.bad'')" sample_env]
      missing_malformed_expired_401 [of "incoming (Some ''Bearer tok.old'')" sample_env]
    by (simp add: facts)
qed

text \<open>
  C6. When the credential verifies and the lookup of its subject resolves to a user row whose
  status is not \<open>active\<close>, the verifier answers 403, whatever the role of that user, and
  leaves the request as it was: \<open>req.user\<close> is not assigned.
\<close>

theorem inactive_account_403:
  assumes "extractToken req = Some token" and "token \<noteq> []"
    and "jwt_verify e token = Decoded userId"
    and "from_users e userId = Resolved (Some u) None"
    and "users_status u \<noteq> ''active''"
  shows "authenticateToken e req =
           (Json 403 ''Account inactive'' ''Your account has been deactivated'', req)
       \<and> req_user (snd (authenticateToken e req)) = req_user req"
  using assms by (simp add: authenticateToken_def)

theorem inactive_account_403_witness:
  "extractToken (incoming (Some ''Bearer tok.u4'')) = Some ''tok.u4''
   \<and> jwt_verify sample_env ''tok.u4'' = Decoded (Some ''u4'')
   \<and> from_users sample_env (Some ''u4'') = Resolved (Some suspended_user) None
   \<and> users_status suspended_user \<noteq> ''active''
   \<and> users_role suspended_user = ''admin''
   \<and> fst (authenticateToken sample_env (incoming (Some ''Bearer tok.u4''))) =
        Json 403 ''Account inactive'' ''Your account has been deactivated''
   \<and> req_user (snd (authenticateToken sample_env (incoming (Some ''Bearer tok.u4'')))) = None"
proof -
  have t: "extractToken (incoming (Some ''Bearer tok.u4'')) = Some ''tok.u4''"
    by (simp add: extractToken_def incoming_def)
  have n: "''tok.u4'' \<noteq> []" by simp
  have v: "jwt_verify sample_env ''tok.u4'' = Decoded (Some ''u4'')"
    by (simp add: sample_env_def)
  have l: "from_users sample_env (Some ''u4'') = Resolved (Some suspended_user) None"
    by (simp add: sample_env_def)
  have s: "users_status suspended_user \<noteq> ''active''"
    by (simp add: suspended_user_def)
  have i: "req_user (incoming (Some ''Bearer tok.u4'')) = None"
    by (simp add: incoming_def)
  show ?thesis
    using inactive_account_403 [OF t n v l s] t v l s i
    by (simp add: suspended_user_def)
qed

text \<open>
  C8 (as amended). After the credential has verified: a lookup that rejects with a thrown
  error whose name is neither \<open>JsonWebTokenError\<close> nor \<open>TokenExpiredError\<close> is answered
  with the generic 500; a lookup that resolves without a row or with an error object of the
  store (an unknown subject, and any failure the store reports in \<open>error\<close>) is answered 401
  \<open>Invalid token\<close> with the message \<open>User not found or token expired\<close>.
\<close>

theorem lookup_rejection_500_lookup_error_401:
  assumes "extractToken req = Some token" and "token \<noteq> []"
    and "jwt_verify e token = Decoded userId"
  shows "(\<forall>name. from_users e userId = Rejected name
              \<and> name \<noteq> ''JsonWebTokenError'' \<and> name \<noteq> ''TokenExpiredError'' \<longrightarrow>
            authenticateToken e req =
              (Json 500 ''Authentication failed''
                 ''Internal server error during authentication'', req))
       \<and> (\<forall>data error. from_users e userId = Resolved data error
              \<and> (data = None \<or> error \<noteq> None) \<longrightarrow>
            authenticateToken e req =
              (Json 401 ''Invalid token'' ''User not found or token expired'', req))"
  using assms
  by (auto simp: authenticateToken_def authenticateCatch_def split: option.splits)

theorem lookup_rejection_500_lookup_error_401_witness:
  "extractToken (incoming (Some ''Bearer tok.u7'')) = Some ''tok.u7''
   \<and> jwt_verify sample_env ''tok.u7'' = Decoded (Some ''u7'')
   \<and> from_users sample_env (Some ''u7'') = Rejected ''TypeError''
   \<and> fst (authenticateToken sample_env (incoming (Some ''Bearer tok.u7''))) =
        Json 500 ''Authentication failed'' ''Internal server error during authentication''
   \<and> extractToken (incoming (Some ''Bearer tok.u9'')) = Some ''tok.u9''
   \<and> jwt_verify sample_env ''tok.u9'' = Decoded (Some ''u9'')
   \<and> from_users sample_env (Some ''u9'') = Resolved None (Some ''PGRST116'')
   \<and> fst (authenticateToken sample_env (incoming (Some ''Bearer tok.u9''))) =
        Json 401 ''Invalid token'' ''User not found or token expired''"
proof -
  have t7: "extractToken (incoming (Some ''Bearer tok.u7'')) = Some ''tok.u7''"
    and t9: "extractToken (incoming (Some ''Bearer tok.u9'')) = Some ''tok.u9''"
    by (simp_all add: extractToken_def incoming_def)
  have n7: "''tok.u7'' \<noteq> []" and n9: "''tok.u9'' \<noteq> []"
    by simp_all
  have v7: "jwt_verify sample_env ''tok.u7'' = Decoded (Some ''u7'')"
    and v9: "jwt_verify sample_env ''tok.u9'' = Decoded (Some ''u9'')"
    by (simp_all add: sample_env_def)
  have l7: "from_users sample_env (Some ''u7'') = Rejected ''TypeError''"
    and l9: "from_users sample_env (Some ''u9'') = Resolved None (Some ''PGRST116'')"
    by (simp_all add: sample_env_def)
  show ?thesis
    using lookup_rejection_500_lookup_error_401 [OF t7 n7 v7]
      lookup_rejection_500_lookup_error_401 [OF t9 n9 v9] t7 t9 v7 v9 l7 l9
    by simp
qed

text \<open>
  C8 as stated fails for an error that the store reports in the \<open>error\<close> field of the
  resolved lookup: the lookup of user \<open>u6\<close> fails with \<open>57P03\<close> (the database cannot
  accept connections), and the verifier answers 401 \<open>Invalid token\<close>, not 500.
\<close>

theorem lookup_error_counterexample:
  "extractToken (incoming (Some ''Bearer tok.u6'')) = Some ''tok.u6''
   \<and> jwt_verify sample_env ''tok.u6'' = Decoded (Some ''u6'')
   \<and> from_users sample_env (Some ''u6'') = Resolved None (Some ''57P03'')
   \<and> authenticateToken sample_env (incoming (Some ''Bearer tok.u6'')) =
        (Json 401 ''Invalid token'' ''User not found or token expired'',
         incoming (Some ''Bearer tok.u6''))"
  by (simp add: authenticateToken_def extractToken_def incoming_def sample_env_def)

end
